theory Spec2Isabelle
  imports Main "HOL-Library.Sublist"
begin

section \<open>Strings and paths\<close>

text \<open>
  Python \<open>str\<close> values are modelled as \<open>string\<close>; the model covers ASCII text.
  A \<open>pathlib.Path\<close> that is absolute is modelled by the list of its components
  below \<open>/\<close>, so \<open>/repo/docs/a.md\<close> is \<open>[''repo'', ''docs'', ''a.md'']\<close> and
  \<open>/\<close> itself is \<open>[]\<close>.  The module constant \<open>ROOT\<close> is a parameter of every
  function that reads it.
\<close>

type_synonym path = "string list"

text \<open>\<open>needle in text\<close> on strings, computed left to right.\<close>

fun contains :: "string \<Rightarrow> string \<Rightarrow> bool" where
  "contains needle [] = (needle = [])"
| "contains needle (c # cs) = (prefix needle (c # cs) \<or> contains needle cs)"

text \<open>\<open>text.endswith(suffix)\<close> and \<open>text.startswith(p)\<close>.\<close>

definition endswith :: "string \<Rightarrow> string \<Rightarrow> bool" where
  "endswith text sfx = (length sfx \<le> length text \<and> drop (length text - length sfx) text = sfx)"

definition startswith :: "string \<Rightarrow> string \<Rightarrow> bool" where
  "startswith text p = (take (length p) text = p)"

text \<open>\<open>str.upper()\<close> on ASCII text.\<close>

definition char_upper :: "char \<Rightarrow> char" where
  "char_upper c =
     (case map_of (zip ''abcdefghijklmnopqrstuvwxyz'' ''ABCDEFGHIJKLMNOPQRSTUVWXYZ'') c of
        Some u \<Rightarrow> u
      | None \<Rightarrow> c)"

definition upper :: "string \<Rightarrow> string" where
  "upper s = map char_upper s"

text \<open>\<open>text.split(sep)\<close> for a one-character separator: never an empty list.\<close>

fun split_on :: "char \<Rightarrow> string \<Rightarrow> string list" where
  "split_on sep [] = [[]]"
| "split_on sep (c # cs) =
     (if c = sep then [] # split_on sep cs
      else (case split_on sep cs of
              [] \<Rightarrow> [[c]]
            | w # ws \<Rightarrow> (c # w) # ws))"

text \<open>
  The components \<open>pathlib\<close> keeps of a path string: empty components and \<open>.\<close> are
  dropped, \<open>..\<close> is kept.
\<close>

definition path_components :: "string \<Rightarrow> string list" where
  "path_components s = filter (\<lambda>w. w \<noteq> [] \<and> w \<noteq> ''.'') (split_on CHR ''/'' s)"

text \<open>\<open>base / s\<close> for an absolute \<open>base\<close> and a relative path string \<open>s\<close>.\<close>

definition join_rel :: "path \<Rightarrow> string \<Rightarrow> path" where
  "join_rel base s = base @ path_components s"

text \<open>\<open>path.name\<close>: the last component, empty for \<open>/\<close>.\<close>

definition pname :: "path \<Rightarrow> string" where
  "pname p = (if p = [] then [] else last p)"

text \<open>\<open>s.rfind('.')\<close> as an option: the index of the last dot.\<close>

fun rfind_dot :: "string \<Rightarrow> nat option" where
  "rfind_dot [] = None"
| "rfind_dot (c # cs) =
     (case rfind_dot cs of
        Some i \<Rightarrow> Some (Suc i)
      | None \<Rightarrow> (if c = CHR ''.'' then Some 0 else None))"

text \<open>
  \<open>path.stem\<close>: the name up to its last dot, when that dot is neither the first nor
  the last character of the name.
\<close>

definition pstem :: "path \<Rightarrow> string" where
  "pstem p =
     (let name = pname p in
      case rfind_dot name of
        Some i \<Rightarrow> (if 0 < i \<and> i < length name - 1 then take i name else name)
      | None \<Rightarrow> name)"

text \<open>\<open>path.parents\<close>: every proper ancestor, nearest first, ending with \<open>/\<close>.\<close>

definition parents :: "path \<Rightarrow> path list" where
  "parents p = map (\<lambda>n. take n p) (rev [0..<length p])"

section \<open>organize-docs.py: allowed locations\<close>

definition SKIP_DIRS :: "string list" where
  "SKIP_DIRS = [''node_modules'', ''vendor'', ''storage'', ''public'', ''bootstrap'',
     ''.git'', ''.idea'', ''.vscode'', ''vendor-bin'']"

definition ALLOWED_ROOT_FILES :: "path \<Rightarrow> path list" where
  "ALLOWED_ROOT_FILES ROOT = [ROOT @ [''README.md'']]"

definition ALLOWED_PREFIXES :: "path \<Rightarrow> path list" where
  "ALLOWED_PREFIXES ROOT =
     [ROOT @ [''docs''],
      ROOT @ [''tests''],
      ROOT @ [''resources'', ''markdown''],
      ROOT @ [''.github''],
      ROOT @ [''.kiro'']]"

text \<open>
  \<open>path.parts\<close> of an absolute path is \<open>/\<close> followed by the components; \<open>/\<close> is no
  member of \<open>SKIP_DIRS\<close>, so only the components decide.
\<close>

definition should_skip :: "path \<Rightarrow> bool" where
  "should_skip p = list_ex (\<lambda>part. part \<in> set SKIP_DIRS) p"

definition is_allowed :: "path \<Rightarrow> path \<Rightarrow> bool" where
  "is_allowed ROOT p =
     (if p \<in> set (ALLOWED_ROOT_FILES ROOT) then True
      else list_ex (\<lambda>pre. pre \<in> set (parents p) \<or> p = pre) (ALLOWED_PREFIXES ROOT))"

section \<open>organize-docs.py: the classifier\<close>

definition patterns :: "(string list \<times> string) list" where
  "patterns =
     [([''NEWS'', ''SECURITY''], ''docs/news/security''),
      ([''NEWS''], ''docs/news''),
      ([''ADMIN''], ''docs/admin''),
      ([''COMMENT''], ''docs/comments''),
      ([''DESIGN'', ''TOKEN''], ''docs/design-tokens''),
      ([''ACCESS''], ''docs/accessibility''),
      ([''INTERFACE''], ''docs/interface''),
      ([''OPTIMISTIC''], ''docs/optimistic-ui''),
      ([''SCOPE''], ''docs/query-scopes''),
      ([''SECURITY''], ''docs/security''),
      ([''VALIDATION''], ''docs/validation''),
      ([''REQUEST''], ''docs/validation''),
      ([''ROUTE''], ''docs/routing''),
      ([''UI''], ''docs/ui-ux''),
      ([''UX''], ''docs/ui-ux''),
      ([''TAILWIND''], ''docs/ui-ux''),
      ([''MODAL''], ''docs/ui-ux''),
      ([''PROJECT''], ''docs/project''),
      ([''PLAN''], ''docs/planning''),
      ([''TODO''], ''docs/planning''),
      ([''TASK''], ''docs/planning''),
      ([''DOCUMENTATION''], ''docs/documentation''),
      ([''I18N''], ''docs/i18n''),
      ([''LOCALE''], ''docs/i18n''),
      ([''LIVEWIRE''], ''docs/livewire''),
      ([''VOLT''], ''docs/volt''),
      ([''API''], ''docs/api'')]"

text \<open>The \<open>for keywords, folder in patterns\<close> loop, returning at the first full match.\<close>

fun first_match :: "string \<Rightarrow> (string list \<times> string) list \<Rightarrow> string option" where
  "first_match name [] = None"
| "first_match name ((keywords, folder) # rest) =
     (if list_all (\<lambda>keyword. contains keyword name) keywords then Some folder
      else first_match name rest)"

definition guess_target_folder :: "path \<Rightarrow> string \<Rightarrow> path" where
  "guess_target_folder ROOT filename =
     (let name = upper filename in
      case first_match name patterns of
        Some folder \<Rightarrow> join_rel ROOT folder
      | None \<Rightarrow> join_rel ROOT ''docs/misc'')"

text \<open>
  The destination the mover computes for a source: \<open>target_dir / source.name\<close>, where
  \<open>target_dir = guess_target_folder(source.stem)\<close>.  Joining the empty name (the name
  of \<open>/\<close>) leaves \<open>target_dir\<close>.
\<close>

definition join_name :: "path \<Rightarrow> string \<Rightarrow> path" where
  "join_name dir name = (if name = [] then dir else dir @ [name])"

definition destination_of :: "path \<Rightarrow> path \<Rightarrow> path" where
  "destination_of ROOT source = join_name (guess_target_folder ROOT (pstem source)) (pname source)"

section \<open>The file system\<close>

text \<open>
  The tree is an association list from absolute paths to nodes, in the order in which
  a directory scan meets them; \<open>/\<close> is always a directory.  A regular file is \<open>File\<close>
  with its text, or \<open>Undecodable\<close> when its bytes are not UTF-8 (reading it raises
  \<open>UnicodeDecodeError\<close>).  Symbolic links, permissions and several devices are outside
  the model.
\<close>

datatype node = File string | Undecodable | Dir

type_synonym fs = "(path \<times> node) list"

definition lookup :: "fs \<Rightarrow> path \<Rightarrow> node option" where
  "lookup t p = (if p = [] then Some Dir else map_of t p)"

text \<open>\<open>path.exists()\<close> and \<open>path.is_dir()\<close>.\<close>

definition pexists :: "fs \<Rightarrow> path \<Rightarrow> bool" where
  "pexists t p = (lookup t p \<noteq> None)"

definition is_dir :: "fs \<Rightarrow> path \<Rightarrow> bool" where
  "is_dir t p = (lookup t p = Some Dir)"

text \<open>
  A tree is well formed when no path is listed twice and every listed path has a
  directory as its parent.
\<close>

definition wf_fs :: "fs \<Rightarrow> bool" where
  "wf_fs t = (distinct (map fst t) \<and> list_all (\<lambda>(p, n). p \<noteq> [] \<and> is_dir t (butlast p)) t)"

text \<open>The exceptions the scripts raise or let through.\<close>

datatype error =
    SystemExit string
  | FileExistsError path
  | NotADirectoryError path
  | FileNotFoundError path
  | ShutilError path path
  | IsADirectoryError path
  | ValueError

text \<open>\<open>str(path)\<close> of an absolute path.\<close>

definition str_of_path :: "path \<Rightarrow> string" where
  "str_of_path p = (if p = [] then ''/'' else concat (map (\<lambda>c. CHR ''/'' # c) p))"

text \<open>
  \<open>dir.mkdir(parents=True, exist_ok=True)\<close>: walking down from \<open>/\<close>, every missing
  ancestor and \<open>dir\<close> itself are created; a regular file in the way raises
  \<open>NotADirectoryError\<close>, or \<open>FileExistsError\<close> when it is \<open>dir\<close> itself.  \<open>base\<close> is the
  part already walked, \<open>full\<close> the path the call was made on.
\<close>

fun mkdir_from :: "path \<Rightarrow> fs \<Rightarrow> path \<Rightarrow> string list \<Rightarrow> error + fs" where
  "mkdir_from full t base [] = Inr t"
| "mkdir_from full t base (c # cs) =
     (case lookup t (base @ [c]) of
        Some Dir \<Rightarrow> mkdir_from full t (base @ [c]) cs
      | None \<Rightarrow> mkdir_from full (t @ [(base @ [c], Dir)]) (base @ [c]) cs
      | Some regular \<Rightarrow>
          Inl (if cs = [] then FileExistsError full else NotADirectoryError full))"

definition mkdir_parents :: "fs \<Rightarrow> path \<Rightarrow> error + fs" where
  "mkdir_parents t dir = mkdir_from dir t [] dir"

text \<open>
  \<open>shutil.move(src, dst)\<close> for a \<open>dst\<close> that does not exist: \<open>os.rename\<close> carries \<open>src\<close>
  and, when it is a directory, everything below it to \<open>dst\<close>.  A missing \<open>src\<close> raises
  \<open>FileNotFoundError\<close>; a directory cannot be moved into itself, and a regular file
  cannot be the parent of \<open>dst\<close>.
\<close>

definition rename_key :: "path \<Rightarrow> path \<Rightarrow> path \<Rightarrow> path" where
  "rename_key src dst p = (if prefix src p then dst @ drop (length src) p else p)"

definition shutil_move :: "fs \<Rightarrow> path \<Rightarrow> path \<Rightarrow> error + fs" where
  "shutil_move t src dst =
     (case lookup t src of
        None \<Rightarrow> Inl (FileNotFoundError src)
      | Some n \<Rightarrow>
          if prefix src dst then Inl (if n = Dir then ShutilError src dst else NotADirectoryError dst)
          else Inr (map (\<lambda>(p, n). (rename_key src dst p, n)) t))"

section \<open>organize-docs.py: the mover\<close>

definition refuse_message :: "path \<Rightarrow> string" where
  "refuse_message destination =
     ''Refusing to overwrite existing file: '' @ str_of_path destination @
     ''. Resolve the conflict and rerun the command.''"

text \<open>
  The loop of \<open>move_stray_files\<close>, with the tree and the list \<open>moves\<close> threaded through.
  An exception ends the loop with the tree as it is at that moment.
\<close>

fun move_loop :: "path \<Rightarrow> fs \<Rightarrow> path list \<Rightarrow> (path \<times> path) list
    \<Rightarrow> (error + (path \<times> path) list) \<times> fs" where
  "move_loop ROOT t [] moves = (Inr moves, t)"
| "move_loop ROOT t (source # rest) moves =
     (let target_dir = guess_target_folder ROOT (pstem source) in
      case mkdir_parents t target_dir of
        Inl e \<Rightarrow> (Inl e, t)
      | Inr t1 \<Rightarrow>
          (let destination = join_name target_dir (pname source) in
           if pexists t1 destination then (Inl (SystemExit (refuse_message destination)), t1)
           else (case shutil_move t1 source destination of
                   Inl e \<Rightarrow> (Inl e, t1)
                 | Inr t2 \<Rightarrow> move_loop ROOT t2 rest (moves @ [(source, destination)]))))"

definition move_stray_files :: "path \<Rightarrow> fs \<Rightarrow> path list
    \<Rightarrow> (error + (path \<times> path) list) \<times> fs" where
  "move_stray_files ROOT t stray_files = move_loop ROOT t stray_files []"

section \<open>organize-docs.py: scanning the tree\<close>

text \<open>
  \<open>ROOT.rglob("*.md")\<close>: every entry below \<open>ROOT\<close>, file or directory, whose name ends
  in \<open>.md\<close>, in scan order.
\<close>


definition rglob_md :: "path \<Rightarrow> fs \<Rightarrow> path list" where
  "rglob_md ROOT t = filter (\<lambda>p. prefix ROOT p \<and> p \<noteq> ROOT \<and> endswith (pname p) ''.md'') (map fst t)"

definition find_markdown :: "path \<Rightarrow> fs \<Rightarrow> path list" where
  "find_markdown ROOT t = filter (\<lambda>p. \<not> should_skip p) (rglob_md ROOT t)"

definition find_stray_markdown :: "path \<Rightarrow> fs \<Rightarrow> path list" where
  "find_stray_markdown ROOT t = filter (\<lambda>p. \<not> is_allowed ROOT p) (find_markdown ROOT t)"

section \<open>Example trees\<close>


section \<open>verify-markdown-links.py: parsing an href\<close>

text \<open>
  \<open>str.strip()\<close> removes the ASCII white space: tab to carriage return, the four
  separators \<open>0x1c\<close> to \<open>0x1f\<close>, and the blank.
\<close>

definition is_space :: "char \<Rightarrow> bool" where
  "is_space c = (let n = (of_char c :: nat) in (9 \<le> n \<and> n \<le> 13) \<or> (28 \<le> n \<and> n \<le> 32))"

definition strip :: "string \<Rightarrow> string" where
  "strip s = rev (dropWhile is_space (rev (dropWhile is_space s)))"

text \<open>\<open>s.split(c, 1)[0]\<close>: the part before the first \<open>c\<close>, all of \<open>s\<close> without one.\<close>

definition before :: "char \<Rightarrow> string \<Rightarrow> string" where
  "before c s = takeWhile (\<lambda>x. x \<noteq> c) s"

definition scheme_chars :: string where
  "scheme_chars = ''abcdefghijklmnopqrstuvwxyzABCDEFGHIJKLMNOPQRSTUVWXYZ0123456789+-.''"

definition uses_params :: "string list" where
  "uses_params = ['''', ''ftp'', ''hdl'', ''prospero'', ''http'', ''imap'', ''https'', ''shttp'',
     ''rtsp'', ''rtsps'', ''rtspu'', ''sip'', ''sips'', ''mms'', ''sftp'', ''tel'']"

definition char_lower :: "char \<Rightarrow> char" where
  "char_lower c =
     (case map_of (zip ''ABCDEFGHIJKLMNOPQRSTUVWXYZ'' ''abcdefghijklmnopqrstuvwxyz'') c of
        Some l \<Rightarrow> l
      | None \<Rightarrow> c)"

definition is_ascii_alpha :: "char \<Rightarrow> bool" where
  "is_ascii_alpha c = (c \<in> set ''abcdefghijklmnopqrstuvwxyzABCDEFGHIJKLMNOPQRSTUVWXYZ'')"

text \<open>
  The scheme step of \<open>urlsplit\<close>: a colon that is not first, after a letter and scheme
  characters only, ends the scheme.
\<close>

definition split_scheme :: "string \<Rightarrow> string \<times> string" where
  "split_scheme url =
     (let pre = before CHR '':'' url in
      if CHR '':'' \<in> set url \<and> pre \<noteq> [] \<and> is_ascii_alpha (hd url)
           \<and> list_all (\<lambda>c. c \<in> set scheme_chars) pre
      then (map char_lower pre, drop (Suc (length pre)) url)
      else ('''', url))"

text \<open>\<open>_splitnetloc(url, 2)\<close>: the network location runs to the first of \<open>/ ? #\<close>.\<close>

definition splitnetloc :: "string \<Rightarrow> string \<times> string" where
  "splitnetloc url =
     (takeWhile (\<lambda>c. c \<notin> set ''/?#'') (drop 2 url),
      dropWhile (\<lambda>c. c \<notin> set ''/?#'') (drop 2 url))"

text \<open>
  The bracket checks of \<open>urlsplit\<close> on a network location.  Whether a host between
  matching brackets is a well-formed address is decided by \<open>ipaddress\<close>; that decision
  is the parameter \<open>host_ok\<close>.
\<close>

definition netloc_ok :: "(string \<Rightarrow> bool) \<Rightarrow> string \<Rightarrow> bool" where
  "netloc_ok host_ok netloc =
     (if CHR ''['' \<in> set netloc \<and> CHR '']'' \<notin> set netloc then False
      else if CHR '']'' \<in> set netloc \<and> CHR ''['' \<notin> set netloc then False
      else if CHR ''['' \<in> set netloc
        then host_ok (before CHR '']'' (drop 1 (dropWhile (\<lambda>c. c \<noteq> CHR ''['') netloc)))
      else True)"

text \<open>\<open>_splitparams(url)[0]\<close>: the path without the parameters of its last segment.\<close>

definition splitparams_path :: "string \<Rightarrow> string" where
  "splitparams_path url =
     (if CHR ''/'' \<in> set url then
        (let last_seg = rev (before CHR ''/'' (rev url)) in
         take (length url - length last_seg) url @ before CHR '';'' last_seg)
      else before CHR '';'' url)"

record parsed_url =
  url_scheme :: string
  url_path :: string

text \<open>
  \<open>urllib.parse.urlparse(href)\<close>, as far as the scripts read it: the scheme and the
  path, or the \<open>ValueError\<close> of a malformed network location.
\<close>

definition urlparse :: "(string \<Rightarrow> bool) \<Rightarrow> string \<Rightarrow> error + parsed_url" where
  "urlparse host_ok href =
     (let url0 = dropWhile (\<lambda>c. (of_char c :: nat) \<le> 32) href;
          url1 = filter (\<lambda>c. c \<notin> set [CHR 0x09, CHR 0x0D, CHR 0x0A]) url0;
          (scheme, url2) = split_scheme url1;
          (netloc, url3) = (if take 2 url2 = ''//'' then splitnetloc url2 else ('''', url2))
      in if \<not> netloc_ok host_ok netloc then Inl ValueError
         else
           (let url4 = before CHR ''?'' (before CHR ''#'' url3);
                url5 = (if scheme \<in> set uses_params \<and> CHR '';'' \<in> set url4
                        then splitparams_path url4 else url4)
            in Inr \<lparr>url_scheme = scheme, url_path = url5\<rparr>))"

definition hexval :: "char \<Rightarrow> nat option" where
  "hexval c = map_of (zip ''0123456789abcdefABCDEF''
     [0, 1, 2, 3, 4, 5, 6, 7, 8, 9, 10, 11, 12, 13, 14, 15, 10, 11, 12, 13, 14, 15]) c"

text \<open>
  \<open>urllib.parse.unquote\<close>: \<open>%XY\<close> with two hexadecimal digits becomes the character
  with that code, anything else stays.  The model covers escapes below \<open>%80\<close>.
\<close>

fun unquote :: "string \<Rightarrow> string" where
  "unquote [] = []"
| "unquote [c] = [c]"
| "unquote [c, a] = [c, a]"
| "unquote (c # a # b # rest) =
     (if c = CHR ''%'' then
        (case (hexval a, hexval b) of
           (Some x, Some y) \<Rightarrow> char_of (16 * x + y) # unquote rest
         | _ \<Rightarrow> c # unquote (a # b # rest))
      else c # unquote (a # b # rest))"

definition SKIP_SCHEMES :: "string list" where
  "SKIP_SCHEMES = [''http'', ''https'', ''mailto'', ''tel'']"

definition should_check :: "(string \<Rightarrow> bool) \<Rightarrow> string \<Rightarrow> error + bool" where
  "should_check host_ok href0 =
     (let href = strip href0 in
      if href = [] \<or> startswith href ''#'' \<or> startswith href ''//'' then Inr False
      else
        (case urlparse host_ok href of
           Inl e \<Rightarrow> Inl e
         | Inr parsed \<Rightarrow>
             if url_scheme parsed \<in> set SKIP_SCHEMES then Inr False
             else Inr (endswith (url_path parsed) ''.md'')))"

text \<open>
  \<open>Path(s)\<close>: no leading slash is a relative path, exactly two leading slashes are the
  root \<open>//\<close>, any other number the root \<open>/\<close>.
\<close>

datatype anchor = Relative | Slash | DoubleSlash

definition path_anchor :: "string \<Rightarrow> anchor" where
  "path_anchor s =
     (let n = length (takeWhile (\<lambda>c. c = CHR ''/'') s) in
      if n = 0 then Relative else if n = 2 then DoubleSlash else Slash)"

text \<open>
  \<open>Path.resolve()\<close> of an absolute path in a tree without links: \<open>..\<close> drops the last
  component kept so far (none at \<open>/\<close>), empty components and \<open>.\<close> are passed over.  A
  component with a NUL character raises \<open>ValueError\<close>.
\<close>

fun normalize :: "path \<Rightarrow> string list \<Rightarrow> path" where
  "normalize acc [] = acc"
| "normalize acc (c # cs) =
     (if c = [] \<or> c = ''.'' then normalize acc cs
      else if c = ''..'' then normalize (butlast acc) cs
      else normalize (acc @ [c]) cs)"

definition resolve :: "path \<Rightarrow> error + path" where
  "resolve p =
     (if list_ex (\<lambda>c. CHR 0x00 \<in> set c) p then Inl ValueError else Inr (normalize [] p))"

definition resolve_target :: "(string \<Rightarrow> bool) \<Rightarrow> path \<Rightarrow> path \<Rightarrow> string
    \<Rightarrow> error + path option" where
  "resolve_target host_ok ROOT current_file href =
     (case urlparse host_ok href of
        Inl e \<Rightarrow> Inl e
      | Inr parsed \<Rightarrow>
          (let path0 = unquote (url_path parsed);
               path1 = before CHR ''?'' (before CHR ''#'' path0);
               resolved =
                 (case path_anchor path1 of
                    Relative \<Rightarrow> resolve (butlast current_file @ path_components path1)
                  | DoubleSlash \<Rightarrow> Inl ValueError
                  | Slash \<Rightarrow> resolve (ROOT @ path_components path1))
           in case resolved of
                Inl e \<Rightarrow> Inl e
              | Inr target \<Rightarrow> if prefix ROOT target then Inr (Some target) else Inr None))"


section \<open>organize-docs.py: rewriting links\<close>

definition TEXT_SUFFIXES :: "string list" where
  "TEXT_SUFFIXES = [''.md'', ''.mdx'', ''.php'', ''.blade.php'', ''.js'', ''.ts'', ''.tsx'',
     ''.json'', ''.yaml'', ''.yml'', ''.neon'', ''.xml'', ''.html'', ''.css'', ''.scss'', ''.txt'']"

definition is_file :: "fs \<Rightarrow> path \<Rightarrow> bool" where
  "is_file t p = (case lookup t p of None \<Rightarrow> False | Some Dir \<Rightarrow> False | Some regular \<Rightarrow> True)"

text \<open>\<open>ROOT.rglob("*")\<close>, filtered as \<open>iter_text_files\<close> does.\<close>

definition iter_text_files :: "path \<Rightarrow> fs \<Rightarrow> path list" where
  "iter_text_files ROOT t =
     filter (\<lambda>p. prefix ROOT p \<and> p \<noteq> ROOT \<and> is_file t p \<and> \<not> should_skip p
                \<and> list_ex (\<lambda>suffix. endswith (str_of_path p) suffix) TEXT_SUFFIXES)
       (map fst t)"

text \<open>\<open>text.replace(old, new)\<close> for a nonempty \<open>old\<close>: leftmost occurrences, not overlapping.\<close>

function replace_all :: "string \<Rightarrow> string \<Rightarrow> string \<Rightarrow> string" where
  "replace_all old new [] = []"
| "replace_all old new (c # cs) =
     (if old \<noteq> [] \<and> prefix old (c # cs)
      then new @ replace_all old new (drop (length old) (c # cs))
      else c # replace_all old new cs)"
  by pat_completeness auto
termination
  by (relation "measure (\<lambda>(old, new, s). length s)") auto

text \<open>\<open>"/".join(parts)\<close>, and \<open>as_posix()\<close> of a relative path, which is \<open>.\<close> without parts.\<close>

fun join_slash :: "string list \<Rightarrow> string" where
  "join_slash [] = []"
| "join_slash [c] = c"
| "join_slash (c # d # cs) = c @ CHR ''/'' # join_slash (d # cs)"

definition as_posix_rel :: "string list \<Rightarrow> string" where
  "as_posix_rel parts = (if parts = [] then ''.'' else join_slash parts)"

text \<open>
  \<open>os.path.relpath(p, start)\<close> on absolute paths: both are normalized, the common
  leading components are dropped, and each remaining component of \<open>start\<close> costs one
  \<open>..\<close>.
\<close>

fun common_prefix_length :: "path \<Rightarrow> path \<Rightarrow> nat" where
  "common_prefix_length (x # xs) (y # ys) = (if x = y then Suc (common_prefix_length xs ys) else 0)"
| "common_prefix_length xs ys = 0"

definition relpath :: "path \<Rightarrow> path \<Rightarrow> string" where
  "relpath p start =
     (let p' = normalize [] p;
          start' = normalize [] start;
          i = common_prefix_length p' start'
      in as_posix_rel (replicate (length start' - i) ''..'' @ drop i p'))"

text \<open>
  The dictionary \<open>mapping\<close> of \<open>update_links\<close>, in insertion order: a repeated key keeps
  its place and takes the later value.  \<open>relative_to(ROOT)\<close> raises \<open>ValueError\<close> for a
  source outside \<open>ROOT\<close>.
\<close>

fun dict_update :: "string \<Rightarrow> path \<Rightarrow> (string \<times> path) list \<Rightarrow> (string \<times> path) list" where
  "dict_update k v [] = [(k, v)]"
| "dict_update k v ((k', v') # kvs) =
     (if k' = k then (k, v) # kvs else (k', v') # dict_update k v kvs)"

fun build_mapping :: "path \<Rightarrow> (path \<times> path) list \<Rightarrow> (string \<times> path) list
    \<Rightarrow> error + (string \<times> path) list" where
  "build_mapping ROOT [] mapping = Inr mapping"
| "build_mapping ROOT ((source, dest) # moves) mapping =
     (if prefix ROOT source
      then build_mapping ROOT moves
             (dict_update (as_posix_rel (drop (length ROOT) source)) dest mapping)
      else Inl ValueError)"

text \<open>
  The four spellings looked for.  They are put in a Python \<open>set\<close>, whose iteration order
  is not fixed by the language: \<open>order\<close> is the order the interpreter happens to use on
  the distinct spellings.
\<close>

definition candidates :: "string \<Rightarrow> string \<Rightarrow> string list" where
  "candidates old_rel old_rel_from_file =
     remdups [old_rel, ''./'' @ old_rel, old_rel_from_file, ''./'' @ old_rel_from_file]"

definition replace_needles :: "string list \<Rightarrow> string \<Rightarrow> string \<Rightarrow> string" where
  "replace_needles needles new_rel text0 =
     foldl (\<lambda>text needle. if contains needle text then replace_all needle new_rel text else text)
       text0 needles"

definition rewrite_text :: "path \<Rightarrow> (string list \<Rightarrow> string list) \<Rightarrow> path
    \<Rightarrow> (string \<times> path) list \<Rightarrow> string \<Rightarrow> string" where
  "rewrite_text ROOT order file_path mapping text0 =
     foldl (\<lambda>text (old_rel, new_abs).
         (let new_rel = relpath new_abs (butlast file_path);
              old_rel_from_file = relpath (join_rel ROOT old_rel) (butlast file_path)
          in replace_needles (order (candidates old_rel old_rel_from_file)) new_rel text))
       text0 mapping"

definition write_text :: "fs \<Rightarrow> path \<Rightarrow> string \<Rightarrow> fs" where
  "write_text t file_path text = map (\<lambda>(p, n). if p = file_path then (p, File text) else (p, n)) t"

fun update_loop :: "path \<Rightarrow> (string list \<Rightarrow> string list) \<Rightarrow> (string \<times> path) list \<Rightarrow> fs
    \<Rightarrow> path list \<Rightarrow> path list \<Rightarrow> path list \<times> fs" where
  "update_loop ROOT order mapping t [] updated = (updated, t)"
| "update_loop ROOT order mapping t (file_path # rest) updated =
     (case lookup t file_path of
        Some (File original) \<Rightarrow>
          (let text = rewrite_text ROOT order file_path mapping original in
           if text \<noteq> original
           then update_loop ROOT order mapping (write_text t file_path text) rest
                  (updated @ [file_path])
           else update_loop ROOT order mapping t rest updated)
      | _ \<Rightarrow> update_loop ROOT order mapping t rest updated)"

definition update_links :: "path \<Rightarrow> (string list \<Rightarrow> string list) \<Rightarrow> fs
    \<Rightarrow> (path \<times> path) list \<Rightarrow> error + (path list \<times> fs)" where
  "update_links ROOT order t moves =
     (if moves = [] then Inr ([], t)
      else (case build_mapping ROOT moves [] of
              Inl e \<Rightarrow> Inl e
            | Inr mapping \<Rightarrow>
                Inr (update_loop ROOT order mapping t (iter_text_files ROOT t) [])))"

section \<open>organize-docs.py: the checks and main\<close>

text \<open>\<open>str(n)\<close> of a natural number.\<close>

fun str_of_nat :: "nat \<Rightarrow> string" where
  "str_of_nat n =
     (if n < 10 then [''0123456789'' ! n]
      else str_of_nat (n div 10) @ [''0123456789'' ! (n mod 10)])"

definition listing :: "path \<Rightarrow> path list \<Rightarrow> string" where
  "listing ROOT ps =
     concat (map (\<lambda>p. [CHR 0x0A] @ '' - '' @ as_posix_rel (drop (length ROOT) p)) ps)"

text \<open>\<open>docs_root.glob("*.md")\<close> without \<open>README.md\<close>.\<close>

definition docs_root_md :: "path \<Rightarrow> fs \<Rightarrow> path list" where
  "docs_root_md ROOT t =
     filter (\<lambda>p. p \<noteq> [] \<and> butlast p = ROOT @ [''docs''] \<and> endswith (pname p) ''.md''
                \<and> pname p \<noteq> ''README.md'')
       (map fst t)"

definition docs_root_message :: "path \<Rightarrow> path list \<Rightarrow> string" where
  "docs_root_message ROOT root_md =
     ''Docs root should only contain docs/README.md. Move these files into function folders:''
       @ listing ROOT root_md"

definition ensure_docs_root_only_index :: "path \<Rightarrow> fs \<Rightarrow> error + unit" where
  "ensure_docs_root_only_index ROOT t =
     (let root_md = docs_root_md ROOT t in
      if root_md \<noteq> [] then Inl (SystemExit (docs_root_message ROOT root_md))
      else Inr ())"

text \<open>
  \<open>main\<close> of organize-docs.py with \<open>args.fix\<close> as \<open>fix\<close>: the printed lines on a normal
  return or the exception, and the tree left behind.
\<close>

definition organize_main :: "path \<Rightarrow> (string list \<Rightarrow> string list) \<Rightarrow> bool \<Rightarrow> fs
    \<Rightarrow> (error + string list) \<times> fs" where
  "organize_main ROOT order fix t =
     (let stray = find_stray_markdown ROOT t;
          first =
            (if fix \<and> stray \<noteq> [] then
               (case move_stray_files ROOT t stray of
                  (Inl e, t1) \<Rightarrow> (Inl e, t1)
                | (Inr moves, t1) \<Rightarrow>
                    (case update_links ROOT order t1 moves of
                       Inl e \<Rightarrow> (Inl e, t1)
                     | Inr (updated, t2) \<Rightarrow>
                         (Inr ([''Moving '' @ str_of_nat (length stray)
                                  @ '' Markdown file(s) into docs/... folders'']
                               @ (if updated \<noteq> []
                                  then [''Updated links in '' @ str_of_nat (length updated)
                                          @ '' file(s)'']
                                  else [])), t2)))
             else if stray \<noteq> [] then
               (Inl (SystemExit (''Found '' @ str_of_nat (length stray)
                  @ '' Markdown file(s) outside docs/. Re-run with --fix to move them automatically.'')), t)
             else (Inr [''No stray Markdown files found.''], t))
      in case first of
           (Inl e, t') \<Rightarrow> (Inl e, t')
         | (Inr out, t') \<Rightarrow>
             (case ensure_docs_root_only_index ROOT t' of
                Inl e \<Rightarrow> (Inl e, t')
              | Inr u \<Rightarrow>
                  (let stray_after = (if fix then find_stray_markdown ROOT t' else []) in
                   if stray_after \<noteq> [] then
                     (Inl (SystemExit
                        (''Some Markdown files are still outside docs/ after attempting to fix:''
                          @ listing ROOT stray_after)), t')
                   else (Inr (out @ [''Docs verification complete.'']), t'))))"

section \<open>verify-markdown-links.py: the scan and main\<close>

text \<open>
  \<open>LINK_RE.finditer(text)\<close> for the pattern \<open>\[[^\]]+\]\(([^)]+)\)\<close>, giving group 1 of
  each match: at an opening bracket the label runs to the next closing bracket and is
  not empty, \<open>](\<close> follows, and the href runs to the next closing parenthesis and is
  not empty.  After a match the scan goes on behind it, otherwise at the next character.
\<close>

function find_links :: "string \<Rightarrow> string list" where
  "find_links [] = []"
| "find_links (c # rest) =
     (let label = takeWhile (\<lambda>x. x \<noteq> CHR '']'') rest;
          after_label = dropWhile (\<lambda>x. x \<noteq> CHR '']'') rest;
          href = takeWhile (\<lambda>x. x \<noteq> CHR '')'') (drop 2 after_label);
          after_href = dropWhile (\<lambda>x. x \<noteq> CHR '')'') (drop 2 after_label)
      in if c = CHR ''['' \<and> label \<noteq> [] \<and> take 2 after_label = ''](''
            \<and> href \<noteq> [] \<and> after_href \<noteq> []
         then href # find_links (drop 1 after_href)
         else find_links rest)"
  by pat_completeness auto
termination
proof (relation "measure length")
  show "wf (measure length)" by simp
next
  fix c :: char and rest label after_label href after_href
  assume "after_label = dropWhile (\<lambda>x. x \<noteq> CHR '']'') rest"
    and "after_href = dropWhile (\<lambda>x. x \<noteq> CHR '')'') (drop 2 after_label)"
  then have "length (drop 1 after_href) \<le> length rest"
    by (metis diff_le_self dual_order.trans length_drop length_dropWhile_le)
  then show "(drop 1 after_href, c # rest) \<in> measure length" by simp
next
  fix c :: char and rest :: string
  show "(rest, c # rest) \<in> measure length" by simp
qed

definition iter_markdown :: "path \<Rightarrow> fs \<Rightarrow> path list" where
  "iter_markdown ROOT t =
     filter (\<lambda>p. \<not> list_ex (\<lambda>part. part \<in> set SKIP_DIRS) p) (rglob_md ROOT t)"

text \<open>
  The loop over the links of one file; \<open>errors\<close> is the list built so far.  An exception
  of \<open>should_check\<close> or \<open>resolve_target\<close> is caught nowhere and ends the run.
\<close>

fun check_hrefs :: "(string \<Rightarrow> bool) \<Rightarrow> path \<Rightarrow> fs \<Rightarrow> path \<Rightarrow> string list
    \<Rightarrow> string list \<Rightarrow> error + string list" where
  "check_hrefs host_ok ROOT t md_file [] errors = Inr errors"
| "check_hrefs host_ok ROOT t md_file (href # rest) errors =
     (case should_check host_ok href of
        Inl e \<Rightarrow> Inl e
      | Inr False \<Rightarrow> check_hrefs host_ok ROOT t md_file rest errors
      | Inr True \<Rightarrow>
          (case resolve_target host_ok ROOT md_file href of
             Inl e \<Rightarrow> Inl e
           | Inr None \<Rightarrow>
               check_hrefs host_ok ROOT t md_file rest
                 (errors @ [as_posix_rel (drop (length ROOT) md_file) @ '' -> '' @ href])
           | Inr (Some target) \<Rightarrow>
               if \<not> pexists t target
               then check_hrefs host_ok ROOT t md_file rest
                      (errors @ [as_posix_rel (drop (length ROOT) md_file) @ '' -> '' @ href])
               else check_hrefs host_ok ROOT t md_file rest errors))"

text \<open>
  The loop over the files.  A file that is not UTF-8 is passed over; a directory whose
  name ends in \<open>.md\<close> cannot be read.
\<close>

fun check_files :: "(string \<Rightarrow> bool) \<Rightarrow> path \<Rightarrow> fs \<Rightarrow> path list \<Rightarrow> string list
    \<Rightarrow> error + string list" where
  "check_files host_ok ROOT t [] errors = Inr errors"
| "check_files host_ok ROOT t (md_file # rest) errors =
     (case lookup t md_file of
        Some (File text) \<Rightarrow>
          (case check_hrefs host_ok ROOT t md_file (find_links text) errors of
             Inl e \<Rightarrow> Inl e
           | Inr errors' \<Rightarrow> check_files host_ok ROOT t rest errors')
      | Some Undecodable \<Rightarrow> check_files host_ok ROOT t rest errors
      | Some Dir \<Rightarrow> Inl (IsADirectoryError md_file)
      | None \<Rightarrow> Inl (FileNotFoundError md_file))"

text \<open>
  \<open>main\<close> of verify-markdown-links.py: the exit code with the printed lines, or the
  exception that ended the run.
\<close>

definition verify_main :: "(string \<Rightarrow> bool) \<Rightarrow> path \<Rightarrow> fs \<Rightarrow> error + (nat \<times> string list)" where
  "verify_main host_ok ROOT t =
     (case check_files host_ok ROOT t (iter_markdown ROOT t) [] of
        Inl e \<Rightarrow> Inl e
      | Inr errors \<Rightarrow>
          if errors \<noteq> [] then
            Inr (1, [''Broken Markdown links found:''] @ map (\<lambda>err. '' - '' @ err) errors
                     @ [CHR 0x0A # ''Fix or remove the broken links above.''])
          else Inr (0, [''Markdown link check passed.'']))"

text \<open>
  A repository at \<open>/repo\<close> after \<open>x.md\<close> was moved from the root to \<open>docs/misc\<close>; \<open>a/b.md\<close>
  holds \<open>content\<close>.
\<close>

definition link_tree :: "string \<Rightarrow> fs" where
  "link_tree content =
     [([''repo''], Dir),
      ([''repo'', ''a''], Dir),
      ([''repo'', ''a'', ''b.md''], File content),
      ([''repo'', ''docs''], Dir),
      ([''repo'', ''docs'', ''misc''], Dir),
      ([''repo'', ''docs'', ''misc'', ''x.md''], File ''moved'')]"

text \<open>Every order in which the elements of a list can be iterated.\<close>

fun insert_everywhere :: "'a \<Rightarrow> 'a list \<Rightarrow> 'a list list" where
  "insert_everywhere x [] = [[x]]"
| "insert_everywhere x (y # ys) = (x # y # ys) # map ((#) y) (insert_everywhere x ys)"

fun orderings :: "'a list \<Rightarrow> 'a list list" where
  "orderings [] = [[]]"
| "orderings (x # xs) = concat (map (insert_everywhere x) (orderings xs))"

text \<open>
  What \<open>update_links\<close> leaves in \<open>a/b.md\<close> for the move of \<open>x.md\<close>, when the spellings
  are iterated in the order \<open>needles\<close>.
\<close>

definition rewritten_b :: "string \<Rightarrow> string list \<Rightarrow> node option" where
  "rewritten_b content needles =
     (case update_links [''repo''] (\<lambda>c. needles) (link_tree content)
             [([''repo'', ''x.md''], [''repo'', ''docs'', ''misc'', ''x.md''])] of
        Inl e \<Rightarrow> None
      | Inr (updated, t) \<Rightarrow> lookup t [''repo'', ''a'', ''b.md''])"

section \<open>Facts about strings\<close>

lemma contains_iff_sublist: "contains needle t \<longleftrightarrow> sublist needle t"
  by (induction t) (auto simp: sublist_Cons_right)


lemma first_match_find:
  "first_match name ps =
     map_option snd (find (\<lambda>(keywords, folder). \<forall>k \<in> set keywords. sublist k name) ps)"
proof (induction ps)
  case Nil
  show ?case by simp
next
  case (Cons a ps)
  obtain kws folder where a: "a = (kws, folder)" by (cases a)
  show ?case
  proof (cases "\<forall>k \<in> set kws. sublist k name")
    case True
    then show ?thesis by (auto simp: a list_all_iff contains_iff_sublist)
  next
    case False
    then show ?thesis using Cons.IH by (auto simp: a list_all_iff contains_iff_sublist)
  qed
qed

lemma components_misc: "path_components ''docs/misc'' = [''docs'', ''misc'']"
  by (simp add: path_components_def)

lemma components_news_security:
  "path_components ''docs/news/security'' = [''docs'', ''news'', ''security'']"
  by (simp add: path_components_def)

section \<open>The classifier picks the first fully matching rule\<close>

text \<open>
  C3: for every filename stem the classifier returns the folder of the first rule of the
  priority list all of whose keywords are substrings of the uppercased stem, and
  \<open>docs/misc\<close> when no rule matches; a stem with both the news and the security keyword
  goes to \<open>docs/news/security\<close>.
\<close>

theorem guess_target_folder_first_full_match:
  "guess_target_folder ROOT stem =
     (case find (\<lambda>(keywords, folder). \<forall>k \<in> set keywords. sublist k (upper stem)) patterns of
        Some (keywords, folder) \<Rightarrow> ROOT @ path_components folder
      | None \<Rightarrow> ROOT @ [''docs'', ''misc''])
   \<and> (sublist ''NEWS'' (upper stem) \<and> sublist ''SECURITY'' (upper stem) \<longrightarrow>
        guess_target_folder ROOT stem = ROOT @ [''docs'', ''news'', ''security''])"
proof
  show "guess_target_folder ROOT stem =
     (case find (\<lambda>(keywords, folder). \<forall>k \<in> set keywords. sublist k (upper stem)) patterns of
        Some (keywords, folder) \<Rightarrow> ROOT @ path_components folder
      | None \<Rightarrow> ROOT @ [''docs'', ''misc''])"
    by (simp add: guess_target_folder_def first_match_find join_rel_def components_misc
        split: option.splits prod.splits)
next
  show "sublist ''NEWS'' (upper stem) \<and> sublist ''SECURITY'' (upper stem) \<longrightarrow>
        guess_target_folder ROOT stem = ROOT @ [''docs'', ''news'', ''security'']"
  proof
    assume h: "sublist ''NEWS'' (upper stem) \<and> sublist ''SECURITY'' (upper stem)"
    then have "first_match (upper stem) patterns = Some ''docs/news/security''"
      by (simp add: patterns_def contains_iff_sublist)
    then show "guess_target_folder ROOT stem = ROOT @ [''docs'', ''news'', ''security'']"
      by (simp add: guess_target_folder_def join_rel_def components_news_security)
  qed
qed

lemma up1: "upper ''Security_News'' = ''SECURITY_NEWS''"
  by (simp add: upper_def char_upper_def)

theorem guess_target_folder_first_full_match_witness:
  "guess_target_folder [''repo''] ''Security_News'' = [''repo'', ''docs'', ''news'', ''security'']"
proof -
  have "sublist ''NEWS'' (upper ''Security_News'') \<and> sublist ''SECURITY'' (upper ''Security_News'')"
    unfolding up1 contains_iff_sublist [symmetric] by simp
  then show ?thesis
    using guess_target_folder_first_full_match [of "[''repo'']" "''Security_News''", THEN conjunct2]
    by simp
qed

lemma first_match_in_table: "first_match name ps = Some f \<Longrightarrow> f \<in> snd ` set ps"
  by (induction ps) (auto split: if_splits)

lemma patterns_under_docs:
  "f \<in> snd ` set patterns \<Longrightarrow> \<exists>r. path_components f = ''docs'' # r \<and> r \<noteq> []"
  by (auto simp: patterns_def path_components_def)

lemma guess_target_folder_under_docs:
  "\<exists>r. guess_target_folder ROOT stem = ROOT @ ''docs'' # r \<and> r \<noteq> []"
proof (cases "first_match (upper stem) patterns")
  case None
  then show ?thesis by (simp add: guess_target_folder_def join_rel_def components_misc)
next
  case (Some f)
  then obtain r where "path_components f = ''docs'' # r" "r \<noteq> []"
    using first_match_in_table patterns_under_docs by blast
  then show ?thesis using Some by (simp add: guess_target_folder_def join_rel_def)
qed

lemma parents_take: "n < length p \<Longrightarrow> take n p \<in> set (parents p)"
  by (auto simp: parents_def)

lemma is_allowed_below_docs: "r \<noteq> [] \<Longrightarrow> is_allowed ROOT (ROOT @ ''docs'' # r)"
proof -
  assume "r \<noteq> []"
  then have "take (Suc (length ROOT)) (ROOT @ ''docs'' # r) \<in> set (parents (ROOT @ ''docs'' # r))"
    by (intro parents_take) (cases r, auto)
  then have "ROOT @ [''docs''] \<in> set (parents (ROOT @ ''docs'' # r))" by simp
  then show ?thesis by (simp add: is_allowed_def ALLOWED_PREFIXES_def)
qed

section \<open>Destinations are allowed locations\<close>

text \<open>
  C9: for every source the destination the mover computes lies below \<open>ROOT/docs\<close>, which
  is an allowed prefix; so the destination satisfies \<open>is_allowed\<close> and is never among the
  strays of any tree.
\<close>

theorem destination_is_allowed:
  "is_allowed ROOT (destination_of ROOT source)
   \<and> destination_of ROOT source \<notin> set (find_stray_markdown ROOT t)"
proof -
  obtain r where r: "guess_target_folder ROOT (pstem source) = ROOT @ ''docs'' # r" "r \<noteq> []"
    using guess_target_folder_under_docs by blast
  have "is_allowed ROOT (destination_of ROOT source)"
  proof (cases "pname source = []")
    case True
    then show ?thesis using r is_allowed_below_docs by (simp add: destination_of_def join_name_def)
  next
    case False
    then have "destination_of ROOT source = ROOT @ ''docs'' # (r @ [pname source])"
      using r by (simp add: destination_of_def join_name_def)
    then show ?thesis using is_allowed_below_docs [of "r @ [pname source]"] by simp
  qed
  then show ?thesis by (simp add: find_stray_markdown_def)
qed





section \<open>What the conflict error reports\<close>






















section \<open>The resolver's table\<close>



lemma insert_everywhere_complete: "as @ x # bs \<in> set (insert_everywhere x (as @ bs))"
  by (induction as) (cases bs, auto)

lemma orderings_complete:
  "distinct xs \<Longrightarrow> distinct ns \<Longrightarrow> set ns = set xs \<Longrightarrow> ns \<in> set (orderings xs)"
proof (induction xs arbitrary: ns)
  case Nil
  then show ?case by simp
next
  case (Cons x xs)
  then have "x \<in> set ns" by auto
  then obtain as bs where ns: "ns = as @ x # bs" by (meson split_list)
  have "distinct (as @ bs)" "set (as @ bs) = set xs"
    using Cons.prems ns by auto
  then have "as @ bs \<in> set (orderings xs)" using Cons by auto
  then show ?case using insert_everywhere_complete [of as x bs] ns by auto
qed

lemma cands: "candidates ''x.md'' (relpath (join_rel [''repo''] ''x.md'') [''repo'', ''a''])
    = [''x.md'', ''./x.md'', ''../x.md'', ''./../x.md'']"
  by code_simp

section \<open>Rewriting a relative link\<close>

text \<open>
  C4 at the input \<open>a/b.md = [x](../x.md)\<close> with the move of \<open>x.md\<close> to \<open>docs/misc/x.md\<close>:
  over all iteration orders of the four spellings the rewritten file is one of three
  texts.  The link correctly computed from \<open>a/\<close> is \<open>../docs/misc/x.md\<close>; none of the three
  links resolves to \<open>docs/misc/x.md\<close>, and each text still contains the spelling \<open>x.md\<close>.
\<close>

theorem rewrite_breaks_relative_link:
  "remdups (map (rewritten_b ''[x](../x.md)'')
       (orderings (candidates ''x.md'' (relpath (join_rel [''repo''] ''x.md'') [''repo'', ''a'']))))
     = [Some (File ''[x](.../docs/misc/../docs/misc/x.md)''),
        Some (File ''[x](../../docs/misc/x.md)''),
        Some (File ''[x](../docs/misc/../docs/misc/x.md)'')]
   \<and> relpath [''repo'', ''docs'', ''misc'', ''x.md''] [''repo'', ''a''] = ''../docs/misc/x.md''
   \<and> resolve_target h [''repo''] [''repo'', ''a'', ''b.md''] ''.../docs/misc/../docs/misc/x.md''
       = Inr (Some [''repo'', ''a'', ''...'', ''docs'', ''docs'', ''misc'', ''x.md''])
   \<and> resolve_target h [''repo''] [''repo'', ''a'', ''b.md''] ''../../docs/misc/x.md'' = Inr None
   \<and> resolve_target h [''repo''] [''repo'', ''a'', ''b.md''] ''../docs/misc/../docs/misc/x.md''
       = Inr (Some [''repo'', ''docs'', ''docs'', ''misc'', ''x.md''])
   \<and> contains ''x.md'' ''[x](.../docs/misc/../docs/misc/x.md)''
   \<and> contains ''x.md'' ''[x](../../docs/misc/x.md)''
   \<and> contains ''x.md'' ''[x](../docs/misc/../docs/misc/x.md)''"
  by code_simp

section \<open>What the mover and the rewriter leave in place\<close>


lemma lookup_append_None: "lookup (t @ [(q, n)]) d = None \<Longrightarrow> lookup t d = None"
  by (auto simp: lookup_def split: if_splits)

lemma mkdir_from_extends:
  "mkdir_from full t base cs = Inr t' \<Longrightarrow>
     \<exists>ds. t' = t @ map (\<lambda>d. (d, Dir)) ds
        \<and> (\<forall>d \<in> set ds. lookup t d = None \<and> prefix d (base @ cs))"
proof (induction cs arbitrary: t base)
  case Nil
  then show ?case by simp
next
  case (Cons c cs)
  show ?case
  proof (cases "lookup t (base @ [c])")
    case None
    then have "mkdir_from full (t @ [(base @ [c], Dir)]) (base @ [c]) cs = Inr t'"
      using Cons.prems by simp
    from Cons.IH [OF this] obtain ds where
      ds: "t' = (t @ [(base @ [c], Dir)]) @ map (\<lambda>d. (d, Dir)) ds"
          "\<forall>d \<in> set ds. lookup (t @ [(base @ [c], Dir)]) d = None \<and> prefix d ((base @ [c]) @ cs)"
      by blast
    have "t' = t @ map (\<lambda>d. (d, Dir)) ((base @ [c]) # ds)" using ds(1) by simp
    moreover have "\<forall>d \<in> set ((base @ [c]) # ds). lookup t d = None \<and> prefix d (base @ c # cs)"
      using ds(2) None lookup_append_None by auto
    ultimately show ?thesis by blast
  next
    case (Some n)
    show ?thesis
    proof (cases n)
      case Dir
      then have "mkdir_from full t (base @ [c]) cs = Inr t'" using Cons.prems Some by simp
      from Cons.IH [OF this] show ?thesis by simp
    qed (use Cons.prems Some in auto)
  qed
qed

lemma mkdir_parents_extends:
  "mkdir_parents t dir = Inr t' \<Longrightarrow>
     \<exists>ds. t' = t @ map (\<lambda>d. (d, Dir)) ds \<and> (\<forall>d \<in> set ds. lookup t d = None \<and> prefix d dir)"
  using mkdir_from_extends [of dir t "[]" dir t'] by (simp add: mkdir_parents_def)

lemma mkdir_parents_keeps_key:
  "mkdir_parents t dir = Inr t' \<Longrightarrow> p \<in> fst ` set t \<Longrightarrow> p \<in> fst ` set t'"
  using mkdir_parents_extends by fastforce

lemma shutil_move_keeps_key:
  "shutil_move t src dst = Inr t' \<Longrightarrow> p \<in> fst ` set t \<Longrightarrow> \<not> prefix src p \<Longrightarrow> p \<in> fst ` set t'"
  by (force simp: shutil_move_def rename_key_def split: option.splits if_splits)

lemma move_loop_keeps_key:
  "move_loop ROOT t srcs moves = (r, t') \<Longrightarrow> p \<in> fst ` set t \<Longrightarrow>
     \<forall>s \<in> set srcs. \<not> prefix s p \<Longrightarrow> p \<in> fst ` set t'"
proof (induction srcs arbitrary: t moves)
  case Nil
  then show ?case by simp
next
  case (Cons s srcs)
  show ?case
  proof (cases "mkdir_parents t (guess_target_folder ROOT (pstem s))")
    case (Inl e)
    then show ?thesis using Cons.prems by (simp add: Let_def)
  next
    case (Inr t1)
    then have k1: "p \<in> fst ` set t1" using mkdir_parents_keeps_key Cons.prems(2) by blast
    show ?thesis
    proof (cases "pexists t1 (destination_of ROOT s)")
      case True
      then show ?thesis using Cons.prems Inr k1 by (auto simp: Let_def destination_of_def)
    next
      case False
      show ?thesis
      proof (cases "shutil_move t1 s (destination_of ROOT s)")
        case (Inl e)
        then show ?thesis using Cons.prems Inr False k1 by (auto simp: Let_def destination_of_def)
      next
        case Inr2: (Inr t2)
        then have k2: "p \<in> fst ` set t2" using shutil_move_keeps_key k1 Cons.prems(3) by auto
        have "move_loop ROOT t2 srcs (moves @ [(s, destination_of ROOT s)]) = (r, t')"
          using Cons.prems(1) Inr False Inr2 by (simp add: Let_def destination_of_def)
        from Cons.IH [OF this k2] show ?thesis using Cons.prems(3) by simp
      qed
    qed
  qed
qed

lemma write_text_keys: "map fst (write_text t f s) = map fst t"
  by (induction t) (auto simp: write_text_def)

lemma update_loop_keys:
  "update_loop ROOT order mapping t files updated = (u, t') \<Longrightarrow> map fst t' = map fst t"
proof (induction files arbitrary: t updated)
  case Nil
  then show ?case by simp
next
  case (Cons f files)
  then show ?case
    by (auto simp: Let_def write_text_keys split: option.splits node.splits if_splits)
qed

lemma update_links_keys:
  "update_links ROOT order t moves = Inr (u, t') \<Longrightarrow> map fst t' = map fst t"
  by (auto simp: update_links_def update_loop_keys split: if_splits sum.splits)

lemma stray_not_above_docs_child:
  assumes "s \<in> set (find_stray_markdown ROOT t)" and "butlast p = ROOT @ [''docs'']" and "p \<noteq> []"
  shows "\<not> prefix s p"
proof
  assume pre: "prefix s p"
  have s: "prefix ROOT s" "s \<noteq> ROOT" "\<not> is_allowed ROOT s"
    using assms(1) by (auto simp: find_stray_markdown_def find_markdown_def rglob_md_def)
  obtain name where p: "p = ROOT @ [''docs'', name]"
    using assms(2,3) by (metis append_butlast_last_id append.assoc append_Cons append_Nil)
  from pre s(1) obtain r where r: "s = ROOT @ r" by (auto simp: prefix_def)
  with pre p have "prefix r [''docs'', name]" by simp
  then have "r = [] \<or> r = [''docs''] \<or> r = [''docs'', name]"
    by (auto simp: prefix_Cons split: list.splits)
  moreover have "is_allowed ROOT (ROOT @ [''docs''])"
    by (simp add: is_allowed_def ALLOWED_PREFIXES_def)
  moreover have "is_allowed ROOT (ROOT @ [''docs'', name])"
    using is_allowed_below_docs [of "[name]" ROOT] by simp
  ultimately show False using s r by auto
qed


lemma docs_children_survive:
  assumes mv: "move_stray_files ROOT t (find_stray_markdown ROOT t) = (Inr moves, t1)"
    and up: "update_links ROOT order t1 moves = Inr (updated, t2)"
  shows "set (docs_root_md ROOT t) \<subseteq> set (docs_root_md ROOT t2)"
proof
  fix p assume "p \<in> set (docs_root_md ROOT t)"
  then have p: "p \<in> fst ` set t" "p \<noteq> []" "butlast p = ROOT @ [''docs'']"
      "endswith (pname p) ''.md''" "pname p \<noteq> ''README.md''"
    by (auto simp: docs_root_md_def)
  have "\<forall>s \<in> set (find_stray_markdown ROOT t). \<not> prefix s p"
    using stray_not_above_docs_child p by blast
  then have "p \<in> fst ` set t1"
    using move_loop_keeps_key mv p(1) unfolding move_stray_files_def by blast
  then have "p \<in> fst ` set t2" using update_links_keys [OF up] by (metis set_map)
  then show "p \<in> set (docs_root_md ROOT t2)" using p by (auto simp: docs_root_md_def)
qed

lemma listing_reports:
  "p \<in> set ps \<Longrightarrow> contains (as_posix_rel (drop (length ROOT) p)) (listing ROOT ps)"
proof (induction ps)
  case Nil
  then show ?case by simp
next
  case (Cons q ps)
  show ?case
  proof (cases "p = q")
    case True
    have "sublist (as_posix_rel (drop (length ROOT) q))
            (([CHR 0x0A] @ '' - '') @ as_posix_rel (drop (length ROOT) q) @ listing ROOT ps)"
      by (rule sublist_appendI)
    then show ?thesis using True by (simp add: contains_iff_sublist listing_def)
  next
    case False
    then have "sublist (as_posix_rel (drop (length ROOT) p)) (listing ROOT ps)"
      using Cons by (simp add: contains_iff_sublist)
    then have "sublist (as_posix_rel (drop (length ROOT) p))
       (([CHR 0x0A] @ '' - '' @ as_posix_rel (drop (length ROOT) q)) @ listing ROOT ps)"
      using sublist_append by blast
    then show ?thesis by (simp add: contains_iff_sublist listing_def)
  qed
qed

end
